theory Spec2Isabelle
  imports Complex_Main "HOL-Library.Word"
begin

section \<open>Data of the nodelet\<close>

text \<open>
  The nodelet \<^verbatim>\<open>PointCloudXYZNodelet\<close> (point_cloud_xyz.cpp) receives a depth image with a
  camera calibration, prepares the OpenCL conversion object on the first frame and asks it
  for a point cloud on every frame. Machine integers are words of their width. Floating
  point numbers are idealised: a value is the quiet NaN or a real number, so rounding,
  infinities and overflow are not modelled.
\<close>

type_synonym cl_uint = "32 word"

datatype fp = quiet_NaN | Fin real

type_synonym cl_float = fp
type_synonym double = fp

fun fmul :: "fp \<Rightarrow> fp \<Rightarrow> fp" where
  "fmul (Fin a) (Fin b) = Fin (a * b)"
| "fmul _ _ = quiet_NaN"

fun fsub :: "fp \<Rightarrow> fp \<Rightarrow> fp" where
  "fsub (Fin a) (Fin b) = Fin (a - b)"
| "fsub _ _ = quiet_NaN"

text \<open>Division by zero has no finite result; the model has no infinities and answers NaN.\<close>

fun fdiv :: "fp \<Rightarrow> fp \<Rightarrow> fp" where
  "fdiv (Fin a) (Fin b) = (if b = 0 then quiet_NaN else Fin (a / b))"
| "fdiv _ _ = quiet_NaN"

text \<open>A comparison with NaN is false.\<close>

fun fgt :: "fp \<Rightarrow> fp \<Rightarrow> bool" where
  "fgt (Fin a) (Fin b) = (b < a)"
| "fgt _ _ = False"

fun is_Fin :: "fp \<Rightarrow> bool" where
  "is_Fin (Fin a) = True"
| "is_Fin quiet_NaN = False"

text \<open>\<^verbatim>\<open>ros::Time\<close> and its \<^verbatim>\<open>toNSec()\<close>, a 64-bit count of nanoseconds.\<close>

record Time =
  sec :: "32 word"
  nsec :: "32 word"

definition toNSec :: "Time \<Rightarrow> 64 word" where
  "toNSec t = ucast (sec t) * 1000000000 + ucast (nsec t)"

text \<open>
  \<^verbatim>\<open>sensor_msgs::Image\<close>: the fields the callback reads. \<open>samples\<close> are the raw depth
  samples of the frame, one per pixel in row-major order, as the conversion reads them.
\<close>

record Image =
  img_stamp :: Time
  img_height :: "32 word"
  img_width :: "32 word"
  encoding :: string
  samples :: "nat list"

text \<open>
  \<^verbatim>\<open>sensor_msgs::CameraInfo\<close> as \<^verbatim>\<open>PinholeCameraModel::fromCameraInfo\<close> reads it, and the
  camera model with its four accessors.
\<close>

record CameraInfo =
  info_cx :: double
  info_cy :: double
  info_fx :: double
  info_fy :: double

record PinholeCameraModel =
  cam_cx :: double
  cam_cy :: double
  cam_fx :: double
  cam_fy :: double

definition fromCameraInfo :: "CameraInfo \<Rightarrow> PinholeCameraModel" where
  "fromCameraInfo info =
     \<lparr>cam_cx = info_cx info, cam_cy = info_cy info, cam_fx = info_fx info, cam_fy = info_fy info\<rparr>"

text \<open>The two structs handed to the conversion object (lines 93 to 105).\<close>

record MetaData =
  md_width :: cl_uint
  md_height :: cl_uint
  n_pixels :: cl_uint
  depth_scaling :: cl_float
  invalid_depth :: cl_uint
  max_depth :: cl_float
  NaN :: cl_float

record Transform =
  cx :: cl_float
  cy :: cl_float
  fx :: cl_float
  fy :: cl_float

text \<open>\<^verbatim>\<open>pcl::PointCloud<pcl::PointXYZ>\<close> with the header fields the callback writes.\<close>

record PointXYZ =
  pt_x :: cl_float
  pt_y :: cl_float
  pt_z :: cl_float

record PointCloud =
  pc_stamp :: "64 word"
  pc_frame_id :: string
  pc_width :: "32 word"
  pc_height :: "32 word"
  is_dense :: bool
  points :: "PointXYZ list"

text \<open>A caught \<^verbatim>\<open>std::exception\<close>, with its \<^verbatim>\<open>what()\<close>.\<close>

datatype exn = Exception (what: string)

text \<open>What the callback does to the outside: log lines, the shutdown request, a publication.\<close>

datatype event =
    NODELET_ERROR string
  | NODELET_INFO string
  | ros_shutdown
  | publish PointCloud

section \<open>The collaborators of the callback\<close>

text \<open>
  The class \<^verbatim>\<open>DepthImageToPCL\<close> is declared in point_cloud_xyz.h, which is not part of the
  sources at hand. The callback is therefore modelled over any implementation of the seven
  methods it calls, acting on a state \<open>'e\<close> of the conversion object. The three setters
  and \<^verbatim>\<open>initCloud\<close> are called outside every \<^verbatim>\<open>try\<close> block and are taken not to throw;
  the other methods return the exception they throw, if any, beside the new state.
\<close>

record 'e DepthImageToPCL =
  setMetaData :: "MetaData \<Rightarrow> 'e \<Rightarrow> 'e"
  setTFData :: "Transform \<Rightarrow> 'e \<Rightarrow> 'e"
  initCloud :: "'e \<Rightarrow> 'e"
  init_CL :: "string \<Rightarrow> 'e \<Rightarrow> exn option \<times> 'e"
  program_kernel :: "string \<Rightarrow> 'e \<Rightarrow> exn option \<times> 'e"
  init_buffers :: "'e \<Rightarrow> exn option \<times> 'e"
  convert_to_pcl :: "Image \<Rightarrow> 'e \<Rightarrow> (exn + PointCloud) \<times> 'e"

text \<open>
  The platform: \<^verbatim>\<open>cv::ocl::haveOpenCL()\<close> and \<^verbatim>\<open>cv_bridge::toCvCopy\<close>, of which the callback
  only observes whether it throws a \<^verbatim>\<open>cv_bridge::Exception\<close> (the copy is never read).
\<close>

record platform =
  haveOpenCL :: bool
  toCvCopy :: "Image \<Rightarrow> string \<Rightarrow> exn option"

section \<open>The nodelet\<close>

record 'e PointCloudXYZNodelet =
  kernel_ready :: bool
  pcl_conversion :: 'e
  camera_model :: PinholeCameraModel
  queue_size :: int
  tf_frame :: string
  cl_file_path :: string

text \<open>The private parameters of \<^verbatim>\<open>onInit\<close>, each possibly unset, and the package path.\<close>

record params =
  param_queue_size :: "int option"
  param_tf_frame :: "string option"
  param_cl_file_path :: "string option"
  package_path :: string

definition onInit :: "params \<Rightarrow> 'e \<Rightarrow> PinholeCameraModel \<Rightarrow> 'e PointCloudXYZNodelet" where
  "onInit p e cam =
     \<lparr>kernel_ready = False,
      pcl_conversion = e,
      camera_model = cam,
      queue_size = (case param_queue_size p of None \<Rightarrow> 1 | Some q \<Rightarrow> q),
      tf_frame = (case param_tf_frame p of None \<Rightarrow> ''kinect2_link'' | Some f \<Rightarrow> f),
      cl_file_path = (case param_cl_file_path p of
                        None \<Rightarrow> package_path p @ ''/ocl_kernel/ocl_kernel.cl''
                      | Some f \<Rightarrow> f)\<rparr>"

text \<open>Lines 93 to 100: the metadata built from the depth message.\<close>

definition make_MetaData :: "Image \<Rightarrow> MetaData" where
  "make_MetaData depth_msg =
     \<lparr>md_width = img_width depth_msg,
      md_height = img_height depth_msg,
      n_pixels = img_width depth_msg * img_height depth_msg,
      depth_scaling = Fin (1 / 1000),
      invalid_depth = 0,
      max_depth = Fin 0,
      NaN = quiet_NaN\<rparr>"

text \<open>Lines 101 to 105: the transform read from the camera model.\<close>

definition make_Transform :: "PinholeCameraModel \<Rightarrow> Transform" where
  "make_Transform cam = \<lparr>cx = cam_cx cam, cy = cam_cy cam, fx = cam_fx cam, fy = cam_fy cam\<rparr>"

text \<open>
  Lines 109 to 116, the body of the \<^verbatim>\<open>try\<close>: the three OpenCL steps in order, stopping at
  the first that throws. The info line is logged once \<^verbatim>\<open>init_CL\<close> has returned.
\<close>

definition ocl_setup :: "'e DepthImageToPCL \<Rightarrow> string \<Rightarrow> 'e \<Rightarrow> exn option \<times> event list \<times> 'e" where
  "ocl_setup ops path e =
     (case init_CL ops path e of
        (Some ex, e1) \<Rightarrow> (Some ex, [], e1)
      | (None, e1) \<Rightarrow>
          (let info = [NODELET_INFO (''Loading opencl kernel from path: '' @ path)] in
           case program_kernel ops ''depth_to_pcl'' e1 of
             (Some ex, e2) \<Rightarrow> (Some ex, info, e2)
           | (None, e2) \<Rightarrow>
               (case init_buffers ops e2 of (r, e3) \<Rightarrow> (r, info, e3))))"

text \<open>
  Lines 90 to 121, the branch taken when \<^verbatim>\<open>kernel_ready_\<close> is false. The flag is set first;
  a failed setup is logged and followed by \<^verbatim>\<open>ros::shutdown()\<close>, and control falls through.
\<close>

definition prepare ::
  "'e DepthImageToPCL \<Rightarrow> Image \<Rightarrow> CameraInfo \<Rightarrow> 'e PointCloudXYZNodelet
     \<Rightarrow> event list \<times> 'e PointCloudXYZNodelet" where
  "prepare ops depth_msg info_msg s =
     (let cam = fromCameraInfo info_msg;
          md = make_MetaData depth_msg;
          tf = make_Transform cam;
          e0 = initCloud ops (setTFData ops tf (setMetaData ops md (pcl_conversion s)))
      in case ocl_setup ops (cl_file_path s) e0 of
           (r, evs, e1) \<Rightarrow>
             (evs @ (case r of
                       None \<Rightarrow> []
                     | Some ex \<Rightarrow>
                         [NODELET_ERROR (''An error occured during OCL setup! '' @ what ex),
                          ros_shutdown]),
              s\<lparr>kernel_ready := True, camera_model := cam, pcl_conversion := e1\<rparr>))"

text \<open>Lines 124 to 139: the conversion, the header of the cloud, the publication.\<close>

definition stamp_cloud :: "Image \<Rightarrow> string \<Rightarrow> PointCloud \<Rightarrow> PointCloud" where
  "stamp_cloud depth_msg frame pc =
     pc\<lparr>is_dense := False,
        pc_height := img_height depth_msg,
        pc_width := img_width depth_msg,
        pc_frame_id := frame,
        pc_stamp := toNSec (img_stamp depth_msg) div 1000\<rparr>"

definition convert_and_publish ::
  "'e DepthImageToPCL \<Rightarrow> Image \<Rightarrow> 'e PointCloudXYZNodelet
     \<Rightarrow> event list \<times> 'e PointCloudXYZNodelet" where
  "convert_and_publish ops depth_msg s =
     (case convert_to_pcl ops depth_msg (pcl_conversion s) of
        (Inl ex, e1) \<Rightarrow>
          ([NODELET_ERROR (''An error occured during depth to pcl conversion! '' @ what ex)],
           s\<lparr>pcl_conversion := e1\<rparr>)
      | (Inr pc, e1) \<Rightarrow>
          ([publish (stamp_cloud depth_msg (tf_frame s) pc)], s\<lparr>pcl_conversion := e1\<rparr>))"

text \<open>Lines 73 to 82: the decoding attempt, of which only the log line remains.\<close>

definition decode_log :: "platform \<Rightarrow> Image \<Rightarrow> event list" where
  "decode_log pf depth_msg =
     (case toCvCopy pf depth_msg (encoding depth_msg) of
        Some ex \<Rightarrow> [NODELET_ERROR (''cv_bridge exception: '' @ what ex)]
      | None \<Rightarrow> [])"

text \<open>The callback: the events it causes, in order, and the nodelet afterwards.\<close>

definition depthCb ::
  "'e DepthImageToPCL \<Rightarrow> platform \<Rightarrow> Image \<Rightarrow> CameraInfo \<Rightarrow> 'e PointCloudXYZNodelet
     \<Rightarrow> event list \<times> 'e PointCloudXYZNodelet" where
  "depthCb ops pf depth_msg info_msg s =
     (let ev0 = decode_log pf depth_msg in
      if haveOpenCL pf then
        (case (if \<not> kernel_ready s then prepare ops depth_msg info_msg s else ([], s)) of
           (ev1, s1) \<Rightarrow>
             (case convert_and_publish ops depth_msg s1 of
                (ev2, s2) \<Rightarrow> (ev0 @ ev1 @ ev2, s2)))
      else (ev0 @ [NODELET_ERROR ''GPU has no OpenCL support!''], s))"

text \<open>A stream of frames, delivered one at a time.\<close>

fun run ::
  "'e DepthImageToPCL \<Rightarrow> (platform \<times> Image \<times> CameraInfo) list \<Rightarrow> 'e PointCloudXYZNodelet
     \<Rightarrow> event list \<times> 'e PointCloudXYZNodelet" where
  "run ops [] s = ([], s)"
| "run ops ((pf, depth_msg, info_msg) # fs) s =
     (case depthCb ops pf depth_msg info_msg s of
        (ev, s1) \<Rightarrow> (case run ops fs s1 of (evs, s2) \<Rightarrow> (ev @ evs, s2)))"

text \<open>
  What a stream of frames does to the conversion object when nothing but
  \<^verbatim>\<open>convert_to_pcl\<close> is called on it, once for each frame delivered while OpenCL is there.
\<close>

fun conversions ::
  "'e DepthImageToPCL \<Rightarrow> (platform \<times> Image \<times> CameraInfo) list \<Rightarrow> 'e \<Rightarrow> 'e" where
  "conversions ops [] e = e"
| "conversions ops ((pf, depth_msg, info_msg) # fs) e =
     conversions ops fs (if haveOpenCL pf then snd (convert_to_pcl ops depth_msg e) else e)"

fun published :: "event list \<Rightarrow> PointCloud list" where
  "published [] = []"
| "published (publish pc # evs) = pc # published evs"
| "published (_ # evs) = published evs"

section \<open>The projection engine\<close>

text \<open>
  Modelled from the spec: the per-pixel projection that \<^verbatim>\<open>convert_to_pcl\<close> delegates to the
  OpenCL kernel \<^verbatim>\<open>depth_to_pcl\<close> (ocl_kernel.cl and the class \<^verbatim>\<open>DepthImageToPCL\<close> are
  missing from the sources). The invalid marker has all three components equal to the
  \<open>NaN\<close> field of the metadata.
\<close>

definition invalid_marker :: "MetaData \<Rightarrow> PointXYZ" where
  "invalid_marker md = \<lparr>pt_x = NaN md, pt_y = NaN md, pt_z = NaN md\<rparr>"

text \<open>
  Modelled from the spec: step 3 of the projection algorithm for the pixel with index \<open>i\<close>
  of a row-major frame, row \<open>i div width\<close> and column \<open>i mod width\<close>:
  \<open>z = d * depth_scaling\<close>, \<open>x = (c - cx) * z / fx\<close>, \<open>y = (r - cy) * z / fy\<close>.
\<close>

definition projected_point :: "MetaData \<Rightarrow> Transform \<Rightarrow> nat \<Rightarrow> nat \<Rightarrow> PointXYZ" where
  "projected_point md tf i d =
     (let r = i div unat (md_width md);
          c = i mod unat (md_width md);
          z = fmul (Fin (real d)) (depth_scaling md)
      in \<lparr>pt_x = fdiv (fmul (fsub (Fin (real c)) (cx tf)) z) (fx tf),
          pt_y = fdiv (fmul (fsub (Fin (real r)) (cy tf)) z) (fy tf),
          pt_z = z\<rparr>)"

text \<open>
  Modelled from the spec: steps 1 to 3 of the projection algorithm; the sentinel test and
  the optional clamp come first.
\<close>

definition project_pixel :: "MetaData \<Rightarrow> Transform \<Rightarrow> nat \<Rightarrow> nat \<Rightarrow> PointXYZ" where
  "project_pixel md tf i d =
     (if d = unat (invalid_depth md)
         \<or> (fgt (max_depth md) (Fin 0)
             \<and> fgt (fmul (Fin (real d)) (depth_scaling md)) (max_depth md))
      then invalid_marker md
      else projected_point md tf i d)"

text \<open>
  Modelled from the spec: the error taxonomy of the projection engine (section 7), which the
  missing class \<^verbatim>\<open>DepthImageToPCL\<close> would raise.
\<close>

datatype engine_error = SetupError | InputSizeMismatch | ProjectionError | UnsupportedBackend

text \<open>
  Modelled from the spec: \<open>project\<close> of the projection engine (the body of the missing
  \<^verbatim>\<open>convert_to_pcl\<close>). A frame whose length is not the pixel count of the metadata is
  refused; otherwise every pixel is projected on its own, in order.
\<close>

definition project :: "MetaData \<Rightarrow> Transform \<Rightarrow> nat list \<Rightarrow> engine_error + PointXYZ list" where
  "project md tf depth_frame =
     (if length depth_frame \<noteq> unat (n_pixels md) then Inl InputSizeMismatch
      else Inr (map (\<lambda>i. project_pixel md tf i (depth_frame ! i)) [0..<length depth_frame]))"

text \<open>
  Modelled from the spec: the state of the projection engine behind \<^verbatim>\<open>DepthImageToPCL\<close>
  (missing from the sources): the metadata and transform it was given and whether its
  kernel and buffers are set up.
\<close>

datatype engine_state = Uninitialized | Prepared | Failed

text \<open>
  Modelled from the spec: the fields of the missing class \<^verbatim>\<open>DepthImageToPCL\<close> that the
  specification speaks of, the metadata and the transform being unset at first.
\<close>

record engine =
  eng_state :: engine_state
  eng_md :: "MetaData option"
  eng_tf :: "Transform option"

text \<open>
  Modelled from the spec: the missing constructor of \<^verbatim>\<open>DepthImageToPCL\<close>; a new engine is
  uninitialised.
\<close>

definition new_engine :: engine where
  "new_engine = \<lparr>eng_state = Uninitialized, eng_md = None, eng_tf = None\<rparr>"

text \<open>
  Modelled from the spec: the two kinds of failure of a projection (section 4.2), raised by
  the missing backend of \<^verbatim>\<open>DepthImageToPCL\<close>: one that leaves the backend unusable, and a
  transient one that concerns a single frame. Each carries the exception thrown.
\<close>

datatype fault = Backend_unusable exn | Transient exn

text \<open>
  Modelled from the spec: the missing method \<^verbatim>\<open>convert_to_pcl\<close>. \<open>run_fault\<close> is the
  failure of the backend when a frame is converted, if any: an unusable backend moves the
  engine to \<open>Failed\<close>, a transient failure leaves it \<open>Prepared\<close>, and both surface as the
  exception. Converting on an engine that is not prepared fails, and so does a frame of
  the wrong length; the header of the cloud is left for the callback to fill.
\<close>

definition engine_convert ::
  "fault option \<Rightarrow> Image \<Rightarrow> engine \<Rightarrow> (exn + PointCloud) \<times> engine" where
  "engine_convert run_fault depth_msg e =
     (if eng_state e \<noteq> Prepared then (Inl (Exception ''engine is not prepared''), e)
      else case run_fault of
        Some (Backend_unusable ex) \<Rightarrow> (Inl ex, e\<lparr>eng_state := Failed\<rparr>)
      | Some (Transient ex) \<Rightarrow> (Inl ex, e)
      | None \<Rightarrow>
          (case (eng_md e, eng_tf e) of
             (Some md, Some tf) \<Rightarrow>
               (case project md tf (samples depth_msg) of
                  Inl err \<Rightarrow> (Inl (Exception ''input size mismatch''), e)
                | Inr pts \<Rightarrow>
                    (Inr \<lparr>pc_stamp = 0, pc_frame_id = [], pc_width = md_width md,
                          pc_height = md_height md, is_dense = True, points = pts\<rparr>, e))
           | _ \<Rightarrow> (Inl (Exception ''engine is not prepared''), e)))"

text \<open>
  Modelled from the spec: the seven methods of the missing class \<^verbatim>\<open>DepthImageToPCL\<close> on that
  state. \<open>setup_fault\<close> is the exception the backend raises when the kernel is loaded, if
  any; the engine is prepared once its buffers are set up.
\<close>

definition engine_ops :: "exn option \<Rightarrow> fault option \<Rightarrow> engine DepthImageToPCL" where
  "engine_ops setup_fault run_fault =
     \<lparr>setMetaData = (\<lambda>md e. e\<lparr>eng_md := Some md\<rparr>),
      setTFData = (\<lambda>tf e. e\<lparr>eng_tf := Some tf\<rparr>),
      initCloud = (\<lambda>e. e),
      init_CL = (\<lambda>path e. case setup_fault of
                             Some ex \<Rightarrow> (Some ex, e\<lparr>eng_state := Failed\<rparr>)
                           | None \<Rightarrow> (None, e)),
      program_kernel = (\<lambda>name e. (None, e)),
      init_buffers = (\<lambda>e. (None, e\<lparr>eng_state := Prepared\<rparr>)),
      convert_to_pcl = engine_convert run_fault\<rparr>"

section \<open>Sample inputs\<close>

definition frame_2x1 :: Image where
  "frame_2x1 = \<lparr>img_stamp = \<lparr>sec = 1, nsec = 2500\<rparr>, img_height = 1, img_width = 2,
                 encoding = ''16UC1'', samples = [0, 2000]\<rparr>"

definition frame_1x2 :: Image where
  "frame_1x2 = \<lparr>img_stamp = \<lparr>sec = 2, nsec = 0\<rparr>, img_height = 2, img_width = 1,
                 encoding = ''16UC1'', samples = [2000, 2000]\<rparr>"

definition info_500 :: CameraInfo where
  "info_500 = \<lparr>info_cx = Fin 1, info_cy = Fin 0, info_fx = Fin 500, info_fy = Fin 500\<rparr>"

definition tf_500 :: Transform where
  "tf_500 = \<lparr>cx = Fin 1, cy = Fin 0, fx = Fin 500, fy = Fin 500\<rparr>"

definition with_ocl :: platform where
  "with_ocl = \<lparr>haveOpenCL = True, toCvCopy = (\<lambda>m enc. None)\<rparr>"

definition without_ocl :: platform where
  "without_ocl = \<lparr>haveOpenCL = False, toCvCopy = (\<lambda>m enc. None)\<rparr>"

definition no_params :: params where
  "no_params = \<lparr>param_queue_size = None, param_tf_frame = None, param_cl_file_path = None,
                 package_path = ''/opt/pses_kinect_utilities''\<rparr>"

definition fresh_nodelet :: "engine PointCloudXYZNodelet" where
  "fresh_nodelet = onInit no_params new_engine (fromCameraInfo info_500)"

definition md_2x1 :: MetaData where
  "md_2x1 = \<lparr>md_width = 2, md_height = 1, n_pixels = 2, depth_scaling = Fin (1 / 1000),
              invalid_depth = 0, max_depth = Fin 0, NaN = quiet_NaN\<rparr>"

definition nan_point :: PointXYZ where
  "nan_point = \<lparr>pt_x = quiet_NaN, pt_y = quiet_NaN, pt_z = quiet_NaN\<rparr>"

text \<open>A point all of whose coordinates are numbers.\<close>

definition fully_valid :: "PointXYZ \<Rightarrow> bool" where
  "fully_valid p = (is_Fin (pt_x p) \<and> is_Fin (pt_y p) \<and> is_Fin (pt_z p))"

text \<open>The nodelet after a first frame on which the setup succeeded.\<close>

definition ready_nodelet :: "engine PointCloudXYZNodelet" where
  "ready_nodelet = snd (depthCb (engine_ops None None) with_ocl frame_2x1 info_500 fresh_nodelet)"


definition no_kernel_file :: exn where
  "no_kernel_file = Exception ''no kernel file''"



section \<open>Basic facts about the callback\<close>

lemmas sample_defs = frame_2x1_def frame_1x2_def info_500_def tf_500_def with_ocl_def
  without_ocl_def no_params_def fresh_nodelet_def new_engine_def

lemmas cb_defs = depthCb_def decode_log_def prepare_def ocl_setup_def convert_and_publish_def
  stamp_cloud_def make_MetaData_def make_Transform_def fromCameraInfo_def onInit_def toNSec_def

lemmas engine_defs = engine_ops_def engine_convert_def project_def project_pixel_def
  projected_point_def invalid_marker_def

lemma published_append: "published (a @ b) = published a @ published b"
  by (induction a rule: published.induct) simp_all

lemma published_decode_log: "published (decode_log pf m) = []"
  by (simp add: decode_log_def split: option.splits)

lemma depthCb_no_OpenCL:
  "\<not> haveOpenCL pf \<Longrightarrow>
   depthCb ops pf m i s = (decode_log pf m @ [NODELET_ERROR ''GPU has no OpenCL support!''], s)"
  by (simp add: depthCb_def)

lemma depthCb_ready:
  "haveOpenCL pf \<Longrightarrow> kernel_ready s \<Longrightarrow>
   depthCb ops pf m i s =
     (decode_log pf m @ fst (convert_and_publish ops m s), snd (convert_and_publish ops m s))"
  by (simp add: depthCb_def split: prod.splits)

lemma depthCb_first:
  "haveOpenCL pf \<Longrightarrow> \<not> kernel_ready s \<Longrightarrow>
   depthCb ops pf m i s =
     (decode_log pf m @ fst (prepare ops m i s)
        @ fst (convert_and_publish ops m (snd (prepare ops m i s))),
      snd (convert_and_publish ops m (snd (prepare ops m i s))))"
  by (simp add: depthCb_def split: prod.splits)

lemma depthCb_decode_split:
  "depthCb ops pf m i s =
     (decode_log pf m @ fst (depthCb ops (pf\<lparr>toCvCopy := (\<lambda>m enc. None)\<rparr>) m i s),
      snd (depthCb ops (pf\<lparr>toCvCopy := (\<lambda>m enc. None)\<rparr>) m i s))"
  by (simp add: depthCb_def decode_log_def split: prod.splits)

lemma convert_and_publish_state:
  "snd (convert_and_publish ops m s) =
     s\<lparr>pcl_conversion := snd (convert_to_pcl ops m (pcl_conversion s))\<rparr>"
  by (simp add: convert_and_publish_def split: prod.splits sum.splits)

lemma convert_and_publish_events:
  "fst (convert_and_publish ops m s) =
     (case fst (convert_to_pcl ops m (pcl_conversion s)) of
        Inl ex \<Rightarrow> [NODELET_ERROR (''An error occured during depth to pcl conversion! '' @ what ex)]
      | Inr pc \<Rightarrow> [publish (stamp_cloud m (tf_frame s) pc)])"
  by (simp add: convert_and_publish_def split: prod.splits sum.splits)

lemma prepare_state:
  "snd (prepare ops m i s) =
     s\<lparr>kernel_ready := True, camera_model := fromCameraInfo i,
       pcl_conversion := snd (snd (ocl_setup ops (cl_file_path s)
          (initCloud ops (setTFData ops (make_Transform (fromCameraInfo i))
             (setMetaData ops (make_MetaData m) (pcl_conversion s))))))\<rparr>"
  by (simp add: prepare_def Let_def split: prod.splits)

lemma prepare_events:
  "fst (prepare ops m i s) =
     fst (snd (ocl_setup ops (cl_file_path s)
          (initCloud ops (setTFData ops (make_Transform (fromCameraInfo i))
             (setMetaData ops (make_MetaData m) (pcl_conversion s))))))
     @ (case fst (ocl_setup ops (cl_file_path s)
          (initCloud ops (setTFData ops (make_Transform (fromCameraInfo i))
             (setMetaData ops (make_MetaData m) (pcl_conversion s))))) of
          None \<Rightarrow> []
        | Some ex \<Rightarrow> [NODELET_ERROR (''An error occured during OCL setup! '' @ what ex), ros_shutdown])"
  by (simp add: prepare_def Let_def split: prod.splits)

lemma depthCb_ready_state:
  "kernel_ready s \<Longrightarrow>
   snd (depthCb ops pf m i s) =
     s\<lparr>pcl_conversion :=
          (if haveOpenCL pf then snd (convert_to_pcl ops m (pcl_conversion s))
           else pcl_conversion s)\<rparr>"
  by (cases "haveOpenCL pf") (simp_all add: depthCb_ready depthCb_no_OpenCL convert_and_publish_state)

lemma run_Cons_state:
  "snd (run ops ((pf, m, i) # fs) s) = snd (run ops fs (snd (depthCb ops pf m i s)))"
  by (simp split: prod.splits)

lemma run2:
  "run ops [(pf1, m1, i1), (pf2, m2, i2)] s =
     (fst (depthCb ops pf1 m1 i1 s) @ fst (depthCb ops pf2 m2 i2 (snd (depthCb ops pf1 m1 i1 s))),
      snd (depthCb ops pf2 m2 i2 (snd (depthCb ops pf1 m1 i1 s))))"
  by (simp split: prod.splits)

text \<open>
  Once the flag is set, a stream of frames leaves the nodelet as it is, apart from what
  \<^verbatim>\<open>convert_to_pcl\<close> does to the conversion object.
\<close>

lemma run_ready_state:
  "kernel_ready s \<Longrightarrow>
   snd (run ops fs s) = s\<lparr>pcl_conversion := conversions ops fs (pcl_conversion s)\<rparr>"
proof (induction fs arbitrary: s)
  case Nil
  then show ?case by simp
next
  case (Cons f fs)
  obtain pf m i where f: "f = (pf, m, i)" by (cases f) auto
  let ?s1 = "snd (depthCb ops pf m i s)"
  have s1: "?s1 = s\<lparr>pcl_conversion :=
          (if haveOpenCL pf then snd (convert_to_pcl ops m (pcl_conversion s))
           else pcl_conversion s)\<rparr>"
    using Cons.prems by (rule depthCb_ready_state)
  then have "kernel_ready ?s1" using Cons.prems by simp
  then have "snd (run ops fs ?s1) = ?s1\<lparr>pcl_conversion := conversions ops fs (pcl_conversion ?s1)\<rparr>"
    by (rule Cons.IH)
  then show ?case
    unfolding f run_Cons_state by (simp add: s1)
qed

lemma published_prepare: "published (fst (prepare ops m i s)) = []"
  by (simp add: prepare_events published_append ocl_setup_def Let_def
        split: prod.splits option.splits)

text \<open>Every published cloud is a converted cloud with the header of lines 128 to 132.\<close>

lemma published_depthCb:
  assumes "pc \<in> set (published (fst (depthCb ops pf m i s)))"
  shows "\<exists>pc0. pc = stamp_cloud m (tf_frame s) pc0"
proof (cases "haveOpenCL pf")
  case False
  with assms show ?thesis
    by (simp add: depthCb_no_OpenCL published_append published_decode_log)
next
  case True
  show ?thesis
  proof (cases "kernel_ready s")
    case True
    with assms \<open>haveOpenCL pf\<close> show ?thesis
      by (auto simp: depthCb_ready published_append published_decode_log
            convert_and_publish_events split: sum.splits)
  next
    case False
    have "published (fst (prepare ops m i s)) = []"
      by (simp add: prepare_events published_append ocl_setup_def Let_def
            split: prod.splits option.splits)
    moreover have "tf_frame (snd (prepare ops m i s)) = tf_frame s"
      by (simp add: prepare_state)
    ultimately show ?thesis
      using assms False \<open>haveOpenCL pf\<close>
      by (auto simp: depthCb_first published_append published_decode_log
            convert_and_publish_events split: sum.splits)
  qed
qed

lemma unat_toNSec: "unat (toNSec t) = unat (sec t) * 1000000000 + unat (nsec t)"
proof -
  have a: "unat (sec t) < 2 ^ 32" and b: "unat (nsec t) < 2 ^ 32"
    using unsigned_less [of "sec t"] unsigned_less [of "nsec t"] by simp_all
  have "unat (sec t) * 1000000000 + unat (nsec t) < 2 ^ 64"
    using a b by simp
  then show ?thesis
    by (simp add: toNSec_def unat_word_ariths unsigned_ucast_eq take_bit_nat_eq_self)
qed

section \<open>Basic facts about the projection\<close>

lemma projected_point_Fin:
  assumes "depth_scaling md = Fin k" "cx tf = Fin a" "cy tf = Fin b"
    "fx tf = Fin f" "fy tf = Fin g" "f \<noteq> 0" "g \<noteq> 0"
  shows "projected_point md tf i d =
     \<lparr>pt_x = Fin ((real (i mod unat (md_width md)) - a) * (real d * k) / f),
      pt_y = Fin ((real (i div unat (md_width md)) - b) * (real d * k) / g),
      pt_z = Fin (real d * k)\<rparr>"
  using assms by (simp add: projected_point_def Let_def)

lemma project_nth:
  "project md tf frame = Inr out \<Longrightarrow> i < length frame \<Longrightarrow>
   out ! i = project_pixel md tf i (frame ! i)"
  by (auto simp: project_def split: if_splits)

lemma project_length: "project md tf frame = Inr out \<Longrightarrow> length out = length frame"
  by (auto simp: project_def split: if_splits)

lemma project_pixel_cases:
  assumes "NaN md = quiet_NaN" "is_Fin (depth_scaling md)" "is_Fin (cx tf)" "is_Fin (cy tf)"
    "fx tf = Fin f" "f \<noteq> 0" "fy tf = Fin g" "g \<noteq> 0"
  shows "project_pixel md tf i d = nan_point \<or> fully_valid (project_pixel md tf i d)"
proof -
  obtain k a b where "depth_scaling md = Fin k" "cx tf = Fin a" "cy tf = Fin b"
    using assms(2-4) by (cases "depth_scaling md"; cases "cx tf"; cases "cy tf") auto
  then have "fully_valid (projected_point md tf i d)"
    using assms by (simp add: projected_point_Fin fully_valid_def)
  then show ?thesis
    using assms(1) by (simp add: project_pixel_def invalid_marker_def nan_point_def)
qed

lemma project_md_2x1:
  "project md_2x1 tf_500 [0, 2000]
     = Inr [nan_point, \<lparr>pt_x = Fin 0, pt_y = Fin 0, pt_z = Fin 2\<rparr>]"
  by (simp add: md_2x1_def tf_500_def nan_point_def engine_defs upt_conv_Cons)

section \<open>Sample runs\<close>

lemma first_frame_2x1:
  "depthCb (engine_ops None None) with_ocl frame_2x1 info_500 fresh_nodelet =
    ([NODELET_INFO ''Loading opencl kernel from path: /opt/pses_kinect_utilities/ocl_kernel/ocl_kernel.cl'',
      publish \<lparr>pc_stamp = 1000002, pc_frame_id = ''kinect2_link'', pc_width = 2,
        pc_height = 1, is_dense = False,
        points = [\<lparr>pt_x = quiet_NaN, pt_y = quiet_NaN, pt_z = quiet_NaN\<rparr>,
                  \<lparr>pt_x = Fin 0, pt_y = Fin 0, pt_z = Fin 2\<rparr>]\<rparr>],
     \<lparr>kernel_ready = True,
      pcl_conversion = \<lparr>eng_state = Prepared, eng_md = Some (make_MetaData frame_2x1),
                        eng_tf = Some tf_500\<rparr>,
      camera_model = fromCameraInfo info_500, queue_size = 1, tf_frame = ''kinect2_link'',
      cl_file_path = ''/opt/pses_kinect_utilities/ocl_kernel/ocl_kernel.cl''\<rparr>)"
  by (simp add: sample_defs cb_defs engine_defs upt_conv_Cons)

lemma ready_nodelet_eq:
  "ready_nodelet =
     \<lparr>kernel_ready = True,
      pcl_conversion = \<lparr>eng_state = Prepared, eng_md = Some (make_MetaData frame_2x1),
                        eng_tf = Some tf_500\<rparr>,
      camera_model = fromCameraInfo info_500, queue_size = 1, tf_frame = ''kinect2_link'',
      cl_file_path = ''/opt/pses_kinect_utilities/ocl_kernel/ocl_kernel.cl''\<rparr>"
  by (simp add: ready_nodelet_def first_frame_2x1)

lemma second_frame_1x2:
  "depthCb (engine_ops None None) with_ocl frame_1x2 info_500 ready_nodelet =
    ([publish \<lparr>pc_stamp = 2000000, pc_frame_id = ''kinect2_link'', pc_width = 1,
        pc_height = 2, is_dense = False,
        points = [\<lparr>pt_x = Fin (- (1 / 250)), pt_y = Fin 0, pt_z = Fin 2\<rparr>,
                  \<lparr>pt_x = Fin 0, pt_y = Fin 0, pt_z = Fin 2\<rparr>]\<rparr>],
     ready_nodelet)"
  by (simp add: ready_nodelet_eq sample_defs cb_defs engine_defs upt_conv_Cons)

lemma failed_first_frame:
  "depthCb (engine_ops (Some no_kernel_file) None) with_ocl frame_2x1 info_500 fresh_nodelet =
    ([NODELET_ERROR ''An error occured during OCL setup! no kernel file'', ros_shutdown,
      NODELET_ERROR ''An error occured during depth to pcl conversion! engine is not prepared''],
     \<lparr>kernel_ready = True,
      pcl_conversion = \<lparr>eng_state = Failed, eng_md = Some (make_MetaData frame_2x1),
                        eng_tf = Some tf_500\<rparr>,
      camera_model = fromCameraInfo info_500, queue_size = 1, tf_frame = ''kinect2_link'',
      cl_file_path = ''/opt/pses_kinect_utilities/ocl_kernel/ocl_kernel.cl''\<rparr>)"
  by (simp add: no_kernel_file_def sample_defs cb_defs engine_defs)

section \<open>The projection of a frame\<close>

text \<open>
  C1. A pixel \<open>i\<close> at row \<open>r\<close> and column \<open>c\<close> whose raw sample \<open>d\<close> is neither the
  invalid sentinel nor excluded by the clamp is projected to the point with
  \<open>z = d * depth_scaling\<close>, \<open>x = (c - cx) * z / fx\<close> and \<open>y = (r - cy) * z / fy\<close>
  (the scaling and the intrinsics being numbers, the focal lengths not zero). In
  particular, with width 2, height 1, scaling 0.001, sentinel 0 and the transform
  \<open>cx = 1, cy = 0, fx = fy = 500\<close>, the frame \<open>[0, 2000]\<close> projects to the invalid marker
  followed by the point \<open>(0, 0, 2)\<close>, also when it goes through the callback.
\<close>

theorem projection_formula:
  "(c < unat (md_width md) \<and> d \<noteq> unat (invalid_depth md)
     \<and> \<not> (fgt (max_depth md) (Fin 0) \<and> fgt (fmul (Fin (real d)) (depth_scaling md)) (max_depth md))
     \<and> depth_scaling md = Fin k \<and> cx tf = Fin a \<and> cy tf = Fin b
     \<and> fx tf = Fin f \<and> fy tf = Fin g \<and> f \<noteq> 0 \<and> g \<noteq> 0
    \<longrightarrow> project_pixel md tf (r * unat (md_width md) + c) d =
          \<lparr>pt_x = Fin ((real c - a) * (real d * k) / f),
           pt_y = Fin ((real r - b) * (real d * k) / g),
           pt_z = Fin (real d * k)\<rparr>)
   \<and> project \<lparr>md_width = 2, md_height = 1, n_pixels = 2, depth_scaling = Fin (1 / 1000),
               invalid_depth = 0, max_depth = Fin 0, NaN = quiet_NaN\<rparr>
        \<lparr>cx = Fin 1, cy = Fin 0, fx = Fin 500, fy = Fin 500\<rparr> [0, 2000]
      = Inr [\<lparr>pt_x = quiet_NaN, pt_y = quiet_NaN, pt_z = quiet_NaN\<rparr>,
             \<lparr>pt_x = Fin 0, pt_y = Fin 0, pt_z = Fin 2\<rparr>]
   \<and> map points (published (fst (depthCb (engine_ops None None) with_ocl frame_2x1 info_500
                                  fresh_nodelet)))
      = [ [\<lparr>pt_x = quiet_NaN, pt_y = quiet_NaN, pt_z = quiet_NaN\<rparr>,
          \<lparr>pt_x = Fin 0, pt_y = Fin 0, pt_z = Fin 2\<rparr>] ]"
proof (intro conjI impI)
  assume h: "c < unat (md_width md) \<and> d \<noteq> unat (invalid_depth md)
     \<and> \<not> (fgt (max_depth md) (Fin 0) \<and> fgt (fmul (Fin (real d)) (depth_scaling md)) (max_depth md))
     \<and> depth_scaling md = Fin k \<and> cx tf = Fin a \<and> cy tf = Fin b
     \<and> fx tf = Fin f \<and> fy tf = Fin g \<and> f \<noteq> 0 \<and> g \<noteq> 0"
  let ?i = "r * unat (md_width md) + c"
  from h have h1: "d \<noteq> unat (invalid_depth md)"
    and h2: "\<not> (fgt (max_depth md) (Fin 0)
               \<and> fgt (fmul (Fin (real d)) (depth_scaling md)) (max_depth md))"
    and c: "c < unat (md_width md)"
    by blast+
  have rc: "?i mod unat (md_width md) = c" "?i div unat (md_width md) = r"
    using c by simp_all
  have "project_pixel md tf ?i d = projected_point md tf ?i d"
    using h1 h2 by (auto simp: project_pixel_def)
  also have "\<dots> = \<lparr>pt_x = Fin ((real (?i mod unat (md_width md)) - a) * (real d * k) / f),
      pt_y = Fin ((real (?i div unat (md_width md)) - b) * (real d * k) / g),
      pt_z = Fin (real d * k)\<rparr>"
    using h by (intro projected_point_Fin) blast+
  finally show "project_pixel md tf ?i d =
          \<lparr>pt_x = Fin ((real c - a) * (real d * k) / f),
           pt_y = Fin ((real r - b) * (real d * k) / g),
           pt_z = Fin (real d * k)\<rparr>"
    by (simp only: rc)
next
  show "project \<lparr>md_width = 2, md_height = 1, n_pixels = 2, depth_scaling = Fin (1 / 1000),
               invalid_depth = 0, max_depth = Fin 0, NaN = quiet_NaN\<rparr>
        \<lparr>cx = Fin 1, cy = Fin 0, fx = Fin 500, fy = Fin 500\<rparr> [0, 2000]
      = Inr [\<lparr>pt_x = quiet_NaN, pt_y = quiet_NaN, pt_z = quiet_NaN\<rparr>,
             \<lparr>pt_x = Fin 0, pt_y = Fin 0, pt_z = Fin 2\<rparr>]"
    using project_md_2x1 by (simp add: md_2x1_def tf_500_def nan_point_def)
next
  show "map points (published (fst (depthCb (engine_ops None None) with_ocl frame_2x1 info_500
                                  fresh_nodelet)))
      = [ [\<lparr>pt_x = quiet_NaN, pt_y = quiet_NaN, pt_z = quiet_NaN\<rparr>,
          \<lparr>pt_x = Fin 0, pt_y = Fin 0, pt_z = Fin 2\<rparr>] ]"
    by (simp add: first_frame_2x1)
qed

text \<open>The second pixel of the sample frame: row 0, column 1, sample 2000.\<close>

theorem projection_formula_witness:
  "(1::nat) < unat (md_width (make_MetaData frame_2x1))
   \<and> 2000 \<noteq> unat (invalid_depth (make_MetaData frame_2x1))
   \<and> \<not> (fgt (max_depth (make_MetaData frame_2x1)) (Fin 0)
        \<and> fgt (fmul (Fin (real 2000)) (depth_scaling (make_MetaData frame_2x1)))
               (max_depth (make_MetaData frame_2x1)))
   \<and> depth_scaling (make_MetaData frame_2x1) = Fin (1 / 1000)
   \<and> cx tf_500 = Fin 1 \<and> cy tf_500 = Fin 0 \<and> fx tf_500 = Fin 500 \<and> fy tf_500 = Fin 500
   \<and> project_pixel (make_MetaData frame_2x1) tf_500 1 2000
       = \<lparr>pt_x = Fin 0, pt_y = Fin 0, pt_z = Fin 2\<rparr>"
  using projection_formula [where d = 2000 and md = "make_MetaData frame_2x1" and tf = tf_500
          and r = 0 and c = 1 and k = "1 / 1000" and a = 1 and b = 0 and f = 500 and g = 500]
  by (simp add: make_MetaData_def frame_2x1_def tf_500_def)

text \<open>
  C2. A pixel whose raw sample equals the invalid sentinel is projected to the invalid
  marker, whatever its index, alone or as part of a frame; with the metadata the callback
  builds the sentinel is 0 and the marker has three NaN components.
\<close>

theorem sentinel_gives_invalid_marker:
  "project_pixel md tf i (unat (invalid_depth md)) = invalid_marker md
   \<and> (project md tf frame = Inr out \<and> j < length frame \<and> frame ! j = unat (invalid_depth md)
        \<longrightarrow> out ! j = invalid_marker md)
   \<and> invalid_depth (make_MetaData m) = 0
   \<and> project_pixel (make_MetaData m) tf i 0
       = \<lparr>pt_x = quiet_NaN, pt_y = quiet_NaN, pt_z = quiet_NaN\<rparr>"
  by (auto simp: project_nth) (simp_all add: project_pixel_def invalid_marker_def make_MetaData_def)

theorem sentinel_gives_invalid_marker_witness:
  "project md_2x1 tf_500 [0, 2000] = Inr [nan_point, \<lparr>pt_x = Fin 0, pt_y = Fin 0, pt_z = Fin 2\<rparr>]
   \<and> (0::nat) < length [0, 2000 :: nat] \<and> [0, 2000] ! 0 = unat (invalid_depth md_2x1)
   \<and> [nan_point, \<lparr>pt_x = Fin 0, pt_y = Fin 0, pt_z = Fin 2\<rparr>] ! 0 = invalid_marker md_2x1"
  using sentinel_gives_invalid_marker [where md = md_2x1 and tf = tf_500 and frame = "[0, 2000]"
          and out = "[nan_point, \<lparr>pt_x = Fin 0, pt_y = Fin 0, pt_z = Fin 2\<rparr>]" and j = 0]
  by (simp add: project_md_2x1) (simp add: md_2x1_def)

text \<open>
  C3. If \<open>max_depth > 0\<close> and \<open>d * depth_scaling > max_depth\<close>, the pixel is projected to
  the invalid marker. If \<open>max_depth = 0\<close>, a sample that is not the sentinel is always
  projected. The callback always sets \<open>max_depth\<close> to 0.
\<close>

theorem max_depth_clamp:
  "(max_depth md = Fin mx \<and> depth_scaling md = Fin k \<and> 0 < mx \<and> mx < real d * k
      \<longrightarrow> project_pixel md tf i d = invalid_marker md)
   \<and> (max_depth md = Fin 0 \<and> d \<noteq> unat (invalid_depth md)
      \<longrightarrow> project_pixel md tf i d = projected_point md tf i d)
   \<and> max_depth (make_MetaData m) = Fin 0"
  by (simp add: project_pixel_def make_MetaData_def)

text \<open>With \<open>max_depth = 1.5\<close> the sample 2000 (2 m) is clamped; with 0 it is projected.\<close>

theorem max_depth_clamp_witness:
  "max_depth (md_2x1\<lparr>max_depth := Fin (3 / 2)\<rparr>) = Fin (3 / 2)
   \<and> depth_scaling (md_2x1\<lparr>max_depth := Fin (3 / 2)\<rparr>) = Fin (1 / 1000)
   \<and> (0::real) < 3 / 2 \<and> (3 / 2 :: real) < real 2000 * (1 / 1000)
   \<and> project_pixel (md_2x1\<lparr>max_depth := Fin (3 / 2)\<rparr>) tf_500 0 2000 = nan_point
   \<and> max_depth md_2x1 = Fin 0 \<and> 2000 \<noteq> unat (invalid_depth md_2x1)
   \<and> project_pixel md_2x1 tf_500 0 2000 = \<lparr>pt_x = Fin (- (1 / 250)), pt_y = Fin 0, pt_z = Fin 2\<rparr>"
  using max_depth_clamp [where md = "md_2x1\<lparr>max_depth := Fin (3 / 2)\<rparr>" and mx = "3 / 2"
          and k = "1 / 1000" and d = 2000 and tf = tf_500 and i = 0]
        max_depth_clamp [where md = md_2x1 and d = 2000 and tf = tf_500 and i = 0]
  by (simp add: md_2x1_def tf_500_def nan_point_def invalid_marker_def projected_point_def)

text \<open>
  C4. A successful projection returns as many points as the frame has samples, the point
  at index \<open>i\<close> is the projection of sample \<open>i\<close>, and (the marker being NaN, the scaling
  and the intrinsics numbers, the focal lengths not zero) every point is either the invalid
  marker or has three numbers as coordinates. The callback publishes the points unchanged.
\<close>

theorem project_length_and_validity:
  assumes "project md tf frame = Inr out"
  shows "length out = length frame
       \<and> (\<forall>i<length frame. out ! i = project_pixel md tf i (frame ! i))
       \<and> (NaN md = quiet_NaN \<and> is_Fin (depth_scaling md) \<and> is_Fin (cx tf) \<and> is_Fin (cy tf)
            \<and> fx tf = Fin f \<and> f \<noteq> 0 \<and> fy tf = Fin g \<and> g \<noteq> 0
          \<longrightarrow> (\<forall>p\<in>set out. p = nan_point \<or> fully_valid p))
       \<and> points (stamp_cloud m frame_id pc) = points pc"
proof (intro conjI impI allI ballI)
  show "length out = length frame" using assms by (rule project_length)
next
  fix i assume "i < length frame"
  with assms show "out ! i = project_pixel md tf i (frame ! i)" by (rule project_nth)
next
  fix p
  assume h: "NaN md = quiet_NaN \<and> is_Fin (depth_scaling md) \<and> is_Fin (cx tf) \<and> is_Fin (cy tf)
            \<and> fx tf = Fin f \<and> f \<noteq> 0 \<and> fy tf = Fin g \<and> g \<noteq> 0"
    and p: "p \<in> set out"
  from p obtain i where i: "i < length out" "p = out ! i"
    by (auto simp: in_set_conv_nth)
  then have "p = project_pixel md tf i (frame ! i)"
    using assms by (simp add: project_nth project_length)
  with h show "p = nan_point \<or> fully_valid p"
    using project_pixel_cases [of md tf f g i "frame ! i"] by simp
next
  show "points (stamp_cloud m frame_id pc) = points pc"
    by (simp add: stamp_cloud_def)
qed

theorem project_length_and_validity_witness:
  "project md_2x1 tf_500 [0, 2000] = Inr [nan_point, \<lparr>pt_x = Fin 0, pt_y = Fin 0, pt_z = Fin 2\<rparr>]
   \<and> NaN md_2x1 = quiet_NaN \<and> is_Fin (depth_scaling md_2x1) \<and> is_Fin (cx tf_500)
   \<and> is_Fin (cy tf_500) \<and> fx tf_500 = Fin 500 \<and> fy tf_500 = Fin 500
   \<and> length [nan_point, \<lparr>pt_x = Fin 0, pt_y = Fin 0, pt_z = Fin 2\<rparr>] = length [0, 2000 :: nat]
   \<and> fully_valid \<lparr>pt_x = Fin 0, pt_y = Fin 0, pt_z = Fin 2\<rparr>"
  using project_md_2x1
    project_length_and_validity [OF project_md_2x1, where f = 500 and g = 500]
  by (simp add: md_2x1_def tf_500_def nan_point_def)

section \<open>Preparation\<close>

text \<open>
  C5, as the code has it. Preparation is done by the first frame that arrives while OpenCL
  is there and the flag \<^verbatim>\<open>kernel_ready_\<close> is unset: the flag is set and the conversion object
  is given the metadata and transform of that frame. Once the flag is set, no later frame
  prepares again, whatever its dimensions or intrinsics: the nodelet stays as it is and the
  conversion object only sees \<^verbatim>\<open>convert_to_pcl\<close>.
\<close>

theorem prepared_once_only:
  "(haveOpenCL pf \<and> \<not> kernel_ready s0 \<longrightarrow>
      kernel_ready (snd (depthCb ops pf m i s0))
      \<and> pcl_conversion (snd (depthCb ops pf m i s0)) =
          snd (convert_to_pcl ops m
            (snd (snd (ocl_setup ops (cl_file_path s0)
               (initCloud ops (setTFData ops (make_Transform (fromCameraInfo i))
                  (setMetaData ops (make_MetaData m) (pcl_conversion s0)))))))))
   \<and> (kernel_ready s \<longrightarrow>
        snd (run ops fs s) = s\<lparr>pcl_conversion := conversions ops fs (pcl_conversion s)\<rparr>)"
  by (simp add: run_ready_state depthCb_first convert_and_publish_state prepare_state)

theorem prepared_once_only_witness:
  "haveOpenCL with_ocl \<and> \<not> kernel_ready fresh_nodelet
   \<and> kernel_ready (snd (depthCb (engine_ops None None) with_ocl frame_2x1 info_500 fresh_nodelet))
   \<and> kernel_ready ready_nodelet
   \<and> snd (run (engine_ops None None) [(with_ocl, frame_1x2, info_500)] ready_nodelet)
       = ready_nodelet"
  using prepared_once_only [where pf = with_ocl and ?s0.0 = fresh_nodelet
          and ops = "engine_ops None None" and m = frame_2x1 and i = info_500
          and s = ready_nodelet and fs = "[(with_ocl, frame_1x2, info_500)]"]
  by (simp add: second_frame_1x2) (simp add: with_ocl_def fresh_nodelet_def onInit_def ready_nodelet_eq)

text \<open>
  Against C5 as written: a 2 x 1 frame followed by a 1 x 2 frame. The metadata differ, yet
  after the second frame the engine still holds the metadata of the first, and the second
  cloud is computed with the old width: its second point is not the one the new metadata
  give.
\<close>

theorem recalibration_counterexample:
  "make_MetaData frame_1x2 \<noteq> make_MetaData frame_2x1
   \<and> eng_md (pcl_conversion (snd (run (engine_ops None None)
         [(with_ocl, frame_2x1, info_500), (with_ocl, frame_1x2, info_500)] fresh_nodelet)))
       = Some (make_MetaData frame_2x1)
   \<and> map points (published (fst (run (engine_ops None None)
         [(with_ocl, frame_2x1, info_500), (with_ocl, frame_1x2, info_500)] fresh_nodelet)))
       = [ [\<lparr>pt_x = quiet_NaN, pt_y = quiet_NaN, pt_z = quiet_NaN\<rparr>,
           \<lparr>pt_x = Fin 0, pt_y = Fin 0, pt_z = Fin 2\<rparr>],
          [\<lparr>pt_x = Fin (- (1 / 250)), pt_y = Fin 0, pt_z = Fin 2\<rparr>,
           \<lparr>pt_x = Fin 0, pt_y = Fin 0, pt_z = Fin 2\<rparr>] ]
   \<and> project (make_MetaData frame_1x2) (make_Transform (fromCameraInfo info_500))
        (samples frame_1x2)
       = Inr [\<lparr>pt_x = Fin (- (1 / 250)), pt_y = Fin 0, pt_z = Fin 2\<rparr>,
              \<lparr>pt_x = Fin (- (1 / 250)), pt_y = Fin (1 / 250), pt_z = Fin 2\<rparr>]"
proof (intro conjI)
  show "make_MetaData frame_1x2 \<noteq> make_MetaData frame_2x1"
    by (simp add: make_MetaData_def frame_1x2_def frame_2x1_def)
next
  have s1: "snd (depthCb (engine_ops None None) with_ocl frame_2x1 info_500 fresh_nodelet)
              = ready_nodelet"
    by (simp add: ready_nodelet_def)
  show "eng_md (pcl_conversion (snd (run (engine_ops None None)
         [(with_ocl, frame_2x1, info_500), (with_ocl, frame_1x2, info_500)] fresh_nodelet)))
       = Some (make_MetaData frame_2x1)"
    unfolding run2 s1 second_frame_1x2 by (simp add: ready_nodelet_eq)
  show "map points (published (fst (run (engine_ops None None)
         [(with_ocl, frame_2x1, info_500), (with_ocl, frame_1x2, info_500)] fresh_nodelet)))
       = [ [\<lparr>pt_x = quiet_NaN, pt_y = quiet_NaN, pt_z = quiet_NaN\<rparr>,
           \<lparr>pt_x = Fin 0, pt_y = Fin 0, pt_z = Fin 2\<rparr>],
          [\<lparr>pt_x = Fin (- (1 / 250)), pt_y = Fin 0, pt_z = Fin 2\<rparr>,
           \<lparr>pt_x = Fin 0, pt_y = Fin 0, pt_z = Fin 2\<rparr>] ]"
    unfolding run2 s1 second_frame_1x2 by (simp add: first_frame_2x1)
next
  show "project (make_MetaData frame_1x2) (make_Transform (fromCameraInfo info_500))
        (samples frame_1x2)
       = Inr [\<lparr>pt_x = Fin (- (1 / 250)), pt_y = Fin 0, pt_z = Fin 2\<rparr>,
              \<lparr>pt_x = Fin (- (1 / 250)), pt_y = Fin (1 / 250), pt_z = Fin 2\<rparr>]"
    by (simp add: sample_defs cb_defs engine_defs upt_conv_Cons)
qed

text \<open>
  C6, as the code has it. When one of the three OpenCL setup steps of the first frame
  throws, the error is logged and \<^verbatim>\<open>ros::shutdown()\<close> is requested; the flag
  \<^verbatim>\<open>kernel_ready_\<close> was set before the attempt and stays set, so that no later frame
  retries the preparation.
\<close>

theorem setup_failure_shuts_down:
  assumes "haveOpenCL pf" and "\<not> kernel_ready s"
    and "fst (ocl_setup ops (cl_file_path s)
           (initCloud ops (setTFData ops (make_Transform (fromCameraInfo i))
              (setMetaData ops (make_MetaData m) (pcl_conversion s))))) = Some ex"
  shows "NODELET_ERROR (''An error occured during OCL setup! '' @ what ex)
           \<in> set (fst (depthCb ops pf m i s))
       \<and> ros_shutdown \<in> set (fst (depthCb ops pf m i s))
       \<and> kernel_ready (snd (depthCb ops pf m i s))
       \<and> snd (run ops fs (snd (depthCb ops pf m i s)))
           = (snd (depthCb ops pf m i s))
               \<lparr>pcl_conversion := conversions ops fs (pcl_conversion (snd (depthCb ops pf m i s)))\<rparr>"
proof -
  have k: "kernel_ready (snd (depthCb ops pf m i s))"
    using assms(1,2) by (simp add: depthCb_first convert_and_publish_state prepare_state)
  have ev: "NODELET_ERROR (''An error occured during OCL setup! '' @ what ex)
              \<in> set (fst (prepare ops m i s))"
    "ros_shutdown \<in> set (fst (prepare ops m i s))"
    using assms(3) by (simp_all add: prepare_events)
  show ?thesis
    using k ev assms(1,2) by (simp add: run_ready_state depthCb_first)
qed

theorem setup_failure_shuts_down_witness:
  "haveOpenCL with_ocl \<and> \<not> kernel_ready fresh_nodelet
   \<and> fst (ocl_setup (engine_ops (Some no_kernel_file) None) (cl_file_path fresh_nodelet)
        (initCloud (engine_ops (Some no_kernel_file) None)
           (setTFData (engine_ops (Some no_kernel_file) None)
              (make_Transform (fromCameraInfo info_500))
              (setMetaData (engine_ops (Some no_kernel_file) None) (make_MetaData frame_2x1)
                 (pcl_conversion fresh_nodelet))))) = Some no_kernel_file
   \<and> ros_shutdown \<in> set (fst (depthCb (engine_ops (Some no_kernel_file) None) with_ocl
                                 frame_2x1 info_500 fresh_nodelet))
   \<and> kernel_ready (snd (depthCb (engine_ops (Some no_kernel_file) None) with_ocl
                                 frame_2x1 info_500 fresh_nodelet))"
proof -
  have a: "haveOpenCL with_ocl" by (simp add: with_ocl_def)
  have b: "\<not> kernel_ready fresh_nodelet" by (simp add: fresh_nodelet_def onInit_def)
  have c: "fst (ocl_setup (engine_ops (Some no_kernel_file) None) (cl_file_path fresh_nodelet)
        (initCloud (engine_ops (Some no_kernel_file) None)
           (setTFData (engine_ops (Some no_kernel_file) None)
              (make_Transform (fromCameraInfo info_500))
              (setMetaData (engine_ops (Some no_kernel_file) None) (make_MetaData frame_2x1)
                 (pcl_conversion fresh_nodelet))))) = Some no_kernel_file"
    by (simp add: ocl_setup_def engine_ops_def)
  show ?thesis
    using a b c setup_failure_shuts_down [OF a b c, where fs = "[]"] by blast
qed

text \<open>
  Against C6 as written: the kernel file cannot be loaded on the first frame. The nodelet
  is then marked ready, the whole node is shut down, and the second frame causes no setup
  step at all, only another failed conversion.
\<close>

theorem setup_failure_counterexample:
  "kernel_ready (snd (depthCb (engine_ops (Some no_kernel_file) None) with_ocl frame_2x1 info_500
                        fresh_nodelet))
   \<and> fst (run (engine_ops (Some no_kernel_file) None)
            [(with_ocl, frame_2x1, info_500), (with_ocl, frame_2x1, info_500)] fresh_nodelet)
       = [NODELET_ERROR ''An error occured during OCL setup! no kernel file'', ros_shutdown,
          NODELET_ERROR ''An error occured during depth to pcl conversion! engine is not prepared'',
          NODELET_ERROR ''An error occured during depth to pcl conversion! engine is not prepared'']"
  unfolding run2 failed_first_frame
  by (simp add: no_kernel_file_def sample_defs cb_defs engine_defs)

section \<open>Failures of a single frame\<close>



text \<open>
  C8. Without OpenCL the callback logs an error and does nothing else: the nodelet is
  unchanged (no preparation), no cloud is published, and the conversion object plays no
  part (no projection of any kind).
\<close>

theorem no_OpenCL_drops_frame:
  assumes "\<not> haveOpenCL pf"
  shows "snd (depthCb ops pf m i s) = s
       \<and> published (fst (depthCb ops pf m i s)) = []
       \<and> NODELET_ERROR ''GPU has no OpenCL support!'' \<in> set (fst (depthCb ops pf m i s))
       \<and> (\<forall>ops'. depthCb ops' pf m i s = depthCb ops pf m i s)"
  using assms by (simp add: depthCb_no_OpenCL published_append published_decode_log)

theorem no_OpenCL_drops_frame_witness:
  "\<not> haveOpenCL without_ocl
   \<and> snd (depthCb (engine_ops None None) without_ocl frame_2x1 info_500 fresh_nodelet) = fresh_nodelet
   \<and> published (fst (depthCb (engine_ops None None) without_ocl frame_2x1 info_500 fresh_nodelet)) = []
   \<and> fst (depthCb (engine_ops None None) without_ocl frame_2x1 info_500 fresh_nodelet)
       = [NODELET_ERROR ''GPU has no OpenCL support!'']"
  using no_OpenCL_drops_frame [of without_ocl "engine_ops None None" frame_2x1 info_500 fresh_nodelet]
  by (simp add: without_ocl_def depthCb_def decode_log_def)

section \<open>The published cloud\<close>

text \<open>
  C9. A published cloud has \<^verbatim>\<open>is_dense\<close> false, the width and height of the depth frame,
  the frame id configured as \<^verbatim>\<open>tf_frame\<close> (\<^verbatim>\<open>kinect2_link\<close> unless the parameter is set),
  and as stamp the time of the frame in microseconds: its nanoseconds divided by 1000.
\<close>

theorem published_cloud_header:
  assumes "pc \<in> set (published (fst (depthCb ops pf m i s)))"
  shows "is_dense pc = False
       \<and> pc_width pc = img_width m
       \<and> pc_height pc = img_height m
       \<and> pc_frame_id pc = tf_frame s
       \<and> pc_stamp pc = toNSec (img_stamp m) div 1000
       \<and> unat (pc_stamp pc) =
           (unat (sec (img_stamp m)) * 1000000000 + unat (nsec (img_stamp m))) div 1000
       \<and> tf_frame (onInit p e cam :: 'b PointCloudXYZNodelet)
           = (case param_tf_frame p of None \<Rightarrow> ''kinect2_link'' | Some f \<Rightarrow> f)"
proof -
  obtain pc0 where pc: "pc = stamp_cloud m (tf_frame s) pc0"
    using published_depthCb [OF assms] by blast
  have "unat (toNSec (img_stamp m) div 1000) = unat (toNSec (img_stamp m)) div 1000"
    by (simp add: unat_div)
  then show ?thesis
    by (simp add: pc stamp_cloud_def unat_toNSec onInit_def)
qed

theorem published_cloud_header_witness:
  "\<lparr>pc_stamp = 1000002, pc_frame_id = ''kinect2_link'', pc_width = 2,
     pc_height = 1, is_dense = False,
     points = [\<lparr>pt_x = quiet_NaN, pt_y = quiet_NaN, pt_z = quiet_NaN\<rparr>,
               \<lparr>pt_x = Fin 0, pt_y = Fin 0, pt_z = Fin 2\<rparr>]\<rparr>
     \<in> set (published (fst (depthCb (engine_ops None None) with_ocl frame_2x1 info_500
                               fresh_nodelet)))
   \<and> img_width frame_2x1 = 2 \<and> img_height frame_2x1 = 1
   \<and> toNSec (img_stamp frame_2x1) div 1000 = 1000002
   \<and> tf_frame fresh_nodelet = ''kinect2_link''"
proof -
  let ?pc = "\<lparr>pc_stamp = 1000002, pc_frame_id = ''kinect2_link'', pc_width = 2,
     pc_height = 1, is_dense = False,
     points = [\<lparr>pt_x = quiet_NaN, pt_y = quiet_NaN, pt_z = quiet_NaN\<rparr>,
               \<lparr>pt_x = Fin 0, pt_y = Fin 0, pt_z = Fin 2\<rparr>]\<rparr>"
  have a: "?pc \<in> set (published (fst (depthCb (engine_ops None None) with_ocl frame_2x1
                                        info_500 fresh_nodelet)))"
    by (simp add: first_frame_2x1)
  show ?thesis
    using a published_cloud_header [OF a, where p = no_params and e = new_engine
            and cam = "fromCameraInfo info_500"]
    by simp
qed

section \<open>The decoding attempt\<close>

text \<open>
  C10. Whether \<^verbatim>\<open>toCvCopy\<close> throws or not changes neither the nodelet after the callback nor
  the clouds it publishes; a throw only puts one error line in front of the events of the
  callback. In particular, after a throw the callback still prepares the engine if it has
  to, calls \<^verbatim>\<open>convert_to_pcl\<close> on the original message and, when that returns a cloud,
  publishes it with the header of that message.
\<close>

theorem decode_failure_ignored:
  "snd (depthCb ops (pf\<lparr>toCvCopy := f\<rparr>) m i s) = snd (depthCb ops (pf\<lparr>toCvCopy := g\<rparr>) m i s)
   \<and> published (fst (depthCb ops (pf\<lparr>toCvCopy := f\<rparr>) m i s))
       = published (fst (depthCb ops (pf\<lparr>toCvCopy := g\<rparr>) m i s))
   \<and> (f m (encoding m) = Some ex \<longrightarrow>
        fst (depthCb ops (pf\<lparr>toCvCopy := f\<rparr>) m i s)
          = NODELET_ERROR (''cv_bridge exception: '' @ what ex)
              # fst (depthCb ops (pf\<lparr>toCvCopy := (\<lambda>m enc. None)\<rparr>) m i s))
   \<and> (haveOpenCL pf \<and> f m (encoding m) = Some ex
        \<and> convert_to_pcl ops m
             (pcl_conversion (if kernel_ready s then s else snd (prepare ops m i s))) = (Inr pc0, e1)
      \<longrightarrow> depthCb ops (pf\<lparr>toCvCopy := f\<rparr>) m i s
            = (NODELET_ERROR (''cv_bridge exception: '' @ what ex)
                 # (if kernel_ready s then [] else fst (prepare ops m i s))
                 @ [publish (stamp_cloud m (tf_frame s) pc0)],
               (if kernel_ready s then s else snd (prepare ops m i s))\<lparr>pcl_conversion := e1\<rparr>)
          \<and> published (fst (depthCb ops (pf\<lparr>toCvCopy := f\<rparr>) m i s))
              = [stamp_cloud m (tf_frame s) pc0])"
proof -
  let ?q = "pf\<lparr>toCvCopy := (\<lambda>m enc. None)\<rparr>"
  let ?pf = "pf\<lparr>toCvCopy := f\<rparr>"
  have f: "depthCb ops ?pf m i s =
      (decode_log ?pf m @ fst (depthCb ops ?q m i s), snd (depthCb ops ?q m i s))"
    using depthCb_decode_split [of ops ?pf m i s] by simp
  have g: "depthCb ops (pf\<lparr>toCvCopy := g\<rparr>) m i s =
      (decode_log (pf\<lparr>toCvCopy := g\<rparr>) m @ fst (depthCb ops ?q m i s), snd (depthCb ops ?q m i s))"
    using depthCb_decode_split [of ops "pf\<lparr>toCvCopy := g\<rparr>" m i s] by simp
  have first: "snd (depthCb ops ?pf m i s) = snd (depthCb ops (pf\<lparr>toCvCopy := g\<rparr>) m i s)
   \<and> published (fst (depthCb ops ?pf m i s))
       = published (fst (depthCb ops (pf\<lparr>toCvCopy := g\<rparr>) m i s))
   \<and> (f m (encoding m) = Some ex \<longrightarrow>
        fst (depthCb ops ?pf m i s)
          = NODELET_ERROR (''cv_bridge exception: '' @ what ex) # fst (depthCb ops ?q m i s))"
    by (simp add: f g published_append published_decode_log) (simp add: decode_log_def)
  have second: "depthCb ops ?pf m i s
            = (NODELET_ERROR (''cv_bridge exception: '' @ what ex)
                 # (if kernel_ready s then [] else fst (prepare ops m i s))
                 @ [publish (stamp_cloud m (tf_frame s) pc0)],
               (if kernel_ready s then s else snd (prepare ops m i s))\<lparr>pcl_conversion := e1\<rparr>)
          \<and> published (fst (depthCb ops ?pf m i s)) = [stamp_cloud m (tf_frame s) pc0]"
    if h: "haveOpenCL pf \<and> f m (encoding m) = Some ex
        \<and> convert_to_pcl ops m
             (pcl_conversion (if kernel_ready s then s else snd (prepare ops m i s))) = (Inr pc0, e1)"
  proof -
    have o: "haveOpenCL ?pf" using h by simp
    have l: "decode_log ?pf m = [NODELET_ERROR (''cv_bridge exception: '' @ what ex)]"
      using h by (simp add: decode_log_def)
    show ?thesis
    proof (cases "kernel_ready s")
      case True
      then have c: "convert_to_pcl ops m (pcl_conversion s) = (Inr pc0, e1)"
        using h by simp
      have "depthCb ops ?pf m i s
              = (NODELET_ERROR (''cv_bridge exception: '' @ what ex)
                   # [publish (stamp_cloud m (tf_frame s) pc0)],
                 s\<lparr>pcl_conversion := e1\<rparr>)"
        using True c by (simp add: depthCb_ready [OF o] l convert_and_publish_def)
      then show ?thesis using True by simp
    next
      case False
      let ?s1 = "snd (prepare ops m i s)"
      have c: "convert_to_pcl ops m (pcl_conversion ?s1) = (Inr pc0, e1)"
        using h False by simp
      have tf: "tf_frame ?s1 = tf_frame s" by (simp add: prepare_state)
      have "depthCb ops ?pf m i s
              = (NODELET_ERROR (''cv_bridge exception: '' @ what ex)
                   # fst (prepare ops m i s) @ [publish (stamp_cloud m (tf_frame s) pc0)],
                 ?s1\<lparr>pcl_conversion := e1\<rparr>)"
        using False c by (simp add: depthCb_first [OF o] l convert_and_publish_def tf)
      then show ?thesis
        using False by (simp add: published_append published_prepare)
    qed
  qed
  show ?thesis using first second by blast
qed

theorem decode_failure_ignored_witness:
  "haveOpenCL with_ocl
   \<and> (\<lambda>m enc. Some (Exception ''bad encoding'')) frame_2x1 (encoding frame_2x1)
      = Some (Exception ''bad encoding'')
   \<and> convert_to_pcl (engine_ops None None) frame_2x1 (pcl_conversion ready_nodelet)
      = (Inr \<lparr>pc_stamp = 0, pc_frame_id = [], pc_width = 2, pc_height = 1, is_dense = True,
               points = [nan_point, \<lparr>pt_x = Fin 0, pt_y = Fin 0, pt_z = Fin 2\<rparr>]\<rparr>,
         pcl_conversion ready_nodelet)
   \<and> depthCb (engine_ops None None)
         (with_ocl\<lparr>toCvCopy := (\<lambda>m enc. Some (Exception ''bad encoding''))\<rparr>)
         frame_2x1 info_500 ready_nodelet
     = ([NODELET_ERROR ''cv_bridge exception: bad encoding'',
         publish \<lparr>pc_stamp = 1000002, pc_frame_id = ''kinect2_link'', pc_width = 2,
                  pc_height = 1, is_dense = False,
                  points = [nan_point, \<lparr>pt_x = Fin 0, pt_y = Fin 0, pt_z = Fin 2\<rparr>]\<rparr>],
        ready_nodelet)"
proof -
  let ?pc0 = "\<lparr>pc_stamp = 0, pc_frame_id = [], pc_width = 2, pc_height = 1, is_dense = True,
               points = [nan_point, \<lparr>pt_x = Fin 0, pt_y = Fin 0, pt_z = Fin 2\<rparr>]\<rparr>"
  have a: "haveOpenCL with_ocl" by (simp add: with_ocl_def)
  have k: "kernel_ready ready_nodelet" by (simp add: ready_nodelet_eq)
  have c: "convert_to_pcl (engine_ops None None) frame_2x1 (pcl_conversion ready_nodelet)
             = (Inr ?pc0, pcl_conversion ready_nodelet)"
    by (simp add: ready_nodelet_eq nan_point_def frame_2x1_def tf_500_def make_MetaData_def
          engine_defs upt_conv_Cons)
  have st: "stamp_cloud frame_2x1 (tf_frame ready_nodelet) ?pc0
              = \<lparr>pc_stamp = 1000002, pc_frame_id = ''kinect2_link'', pc_width = 2,
                  pc_height = 1, is_dense = False,
                  points = [nan_point, \<lparr>pt_x = Fin 0, pt_y = Fin 0, pt_z = Fin 2\<rparr>]\<rparr>"
    by (simp add: ready_nodelet_eq stamp_cloud_def frame_2x1_def toNSec_def)
  note t = decode_failure_ignored [where ops = "engine_ops None None" and pf = with_ocl
          and f = "\<lambda>m enc. Some (Exception ''bad encoding'')" and m = frame_2x1
          and i = info_500 and s = ready_nodelet and g = "\<lambda>m enc. None"
          and ex = "Exception ''bad encoding''" and ?pc0.0 = ?pc0
          and ?e1.0 = "pcl_conversion ready_nodelet"]
  show ?thesis
    using a c t by (simp add: k st)
qed

end
